theory Spec2Isabelle
  imports Complex_Main
begin

section \<open>The code runner: src/app/api/run/route.ts\<close>

text \<open>
  The route handler \<^verbatim>\<open>POST\<close> validates a request body, writes the submitted source
  into a fresh temporary directory, starts \<^verbatim>\<open>docker run\<close> on it, feeds the optional
  input, collects both output streams, kills the process after a fixed delay and answers
  with the exit code and the captured text.

  The handler is modelled as a function of the request and of a \<open>world\<close>: what the
  file system, the process launcher and the running process do. Its result is the
  response (when one is produced) and the list of the effects it performed, in order.
  A JavaScript string is a \<open>string\<close>; one list element stands for one UTF-16 code unit,
  which is what \<^verbatim>\<open>.length\<close> counts.
\<close>

subsection \<open>Data\<close>

text \<open>A thrown value, seen through \<^verbatim>\<open>e?.message\<close>.\<close>

datatype exn = Exn (message: "string option")

text \<open>
  A value that \<^verbatim>\<open>JSON.parse\<close> can produce: \<^verbatim>\<open>null\<close>, a boolean, a number, a
  string, an array or an object.
\<close>

datatype jsval =
  JNull
  | JBool bool
  | JNumber real
  | JString string
  | JArray "jsval list"
  | JObject "(string \<times> jsval) list"

text \<open>
  \<^verbatim>\<open>type RunBody = { language: Language; code: string; stdin?: string }\<close>.
  The type is erased at run time: a field may be missing from the parsed body, and
  \<open>language\<close> may be any string. The handler never looks at the type of \<open>stdin\<close>
  before it uses it, so \<open>stdin\<close> is any value of the parsed body, or missing.
\<close>

record RunBody =
  language :: "string option"
  code :: "string option"
  stdin :: "jsval option"

text \<open>The data handed to \<^verbatim>\<open>json\<close>: an error object or the result object.\<close>

datatype payload =
  ErrorMsg (error: string)
  | RunResult (exitCode: int) (stdout: string) (stderr: string) (timedOut: bool)

record response =
  status :: nat
  body :: payload
  headers :: "(string \<times> string) list"

text \<open>The calls the handler makes on the file system, the launcher and the process.\<close>

datatype effect =
  Mkdtemp string
  | WriteFile string string
  | Spawn string "string list"
  | StdinWrite string
  | StdinEnd
  | SetTimeout nat
  | Kill string
  | ClearTimeout
  | Rm string

text \<open>
  What the event loop delivers to the callbacks the handler registers: a chunk on
  either stream, the expiry of the timer, and \<^verbatim>\<open>close\<close> with the exit code
  (\<open>None\<close> for \<^verbatim>\<open>null\<close>: the process was ended by a signal).
\<close>

datatype event =
  StdoutData string
  | StderrData string
  | TimerFired
  | Close "int option"

text \<open>
  The world of one request: \<^verbatim>\<open>os.tmpdir()\<close>, the directory \<^verbatim>\<open>fs.mkdtemp\<close>
  creates (or what it throws), what \<^verbatim>\<open>fs.writeFile\<close> and \<^verbatim>\<open>spawn\<close> throw if
  they do, the error \<^verbatim>\<open>proc.stdin.write\<close> throws when its argument is not a string,
  and the events delivered after the listeners are registered. A list of events
  without \<open>Close\<close> is a process whose \<^verbatim>\<open>close\<close> never comes.
\<close>

record world =
  tmpdir :: string
  mkdtemp :: "exn + string"
  writeFile :: "exn option"
  spawn :: "exn option"
  invalid_chunk :: exn
  events :: "event list"

subsection \<open>Constants\<close>

definition LIMIT_SECONDS :: nat where
  "LIMIT_SECONDS = 6"

definition LIMIT_MEMORY :: string where
  "LIMIT_MEMORY = ''256m''"

definition LIMIT_CPUS :: string where
  "LIMIT_CPUS = ''0.5''"

text \<open>The array literal of the language check.\<close>

definition supported :: "string list" where
  "supported = [''python'', ''node'', ''c'', ''cpp'', ''java'']"

subsection \<open>dockerArgs\<close>

text \<open>The local constant \<^verbatim>\<open>common\<close> of \<^verbatim>\<open>dockerArgs\<close>, with \<^verbatim>\<open>mountSpec\<close>.\<close>

definition common :: "string \<Rightarrow> string list" where
  "common dir =
     (let mountSpec = dir @ '':/workspace:ro'' in
      [''run'', ''--rm'',
       ''--network'', ''none'',
       ''--cpus'', LIMIT_CPUS,
       ''--memory'', LIMIT_MEMORY,
       ''--pids-limit'', ''64'',
       ''--read-only'',
       ''--tmpfs'', ''/tmp:rw,nosuid,nodev,noexec,size=64m'',
       ''--cap-drop'', ''ALL'',
       ''--security-opt'', ''no-new-privileges'',
       ''-v'', mountSpec,
       ''-w'', ''/workspace'',
       ''--user'', ''1000:1000''])"

text \<open>The \<^verbatim>\<open>switch\<close> on the language; its \<^verbatim>\<open>default\<close> throws.\<close>

definition dockerArgs :: "string \<Rightarrow> string \<Rightarrow> string \<Rightarrow> exn + string list" where
  "dockerArgs lang dir fileBase =
     (if lang = ''python'' then
        Inr (common dir @ [''python:3.11-alpine'', ''python'', fileBase @ ''.py''])
      else if lang = ''node'' then
        Inr (common dir @ [''node:20-alpine'', ''node'', fileBase @ ''.js''])
      else if lang = ''c'' then
        Inr (common dir @
          [''gcc:13'', ''/bin/sh'', ''-lc'',
           ''cp /workspace/'' @ fileBase @ ''.c /tmp && gcc -O2 -pipe /tmp/'' @ fileBase @
             ''.c -o /tmp/main && /tmp/main''])
      else if lang = ''cpp'' then
        Inr (common dir @
          [''gcc:13'', ''/bin/sh'', ''-lc'',
           ''cp /workspace/'' @ fileBase @ ''.cpp /tmp && g++ -O2 -pipe /tmp/'' @ fileBase @
             ''.cpp -o /tmp/main && /tmp/main''])
      else if lang = ''java'' then
        Inr (common dir @
          [''openjdk:21-jdk-slim'', ''/bin/sh'', ''-lc'',
           ''cp /workspace/Main.java /tmp && javac -d /tmp /tmp/Main.java && cd /tmp && java Main''])
      else Inl (Exn (Some (''Unsupported language: '' @ lang))))"

subsection \<open>json and the catch clause\<close>

definition json :: "payload \<Rightarrow> nat \<Rightarrow> response" where
  "json data st =
     \<lparr>status = st, body = data, headers = [(''Content-Type'', ''application/json'')]\<rparr>"

text \<open>
  \<^verbatim>\<open>catch (e) { return json({ error: e?.message || "runner error" }, 500) }\<close>:
  a missing or empty message gives the default text.
\<close>

definition catch :: "exn \<Rightarrow> response" where
  "catch e =
     json (ErrorMsg (case message e of
                       None \<Rightarrow> ''runner error''
                     | Some m \<Rightarrow> if m = [] then ''runner error'' else m)) 500"

subsection \<open>The handler\<close>

text \<open>\<^verbatim>\<open>path.join\<close> of a directory and a name that need no normalisation.\<close>

definition path_join :: "string \<Rightarrow> string \<Rightarrow> string" where
  "path_join d f = d @ ''/'' @ f"

text \<open>
  The \<^verbatim>\<open>switch\<close> that chooses \<^verbatim>\<open>filename\<close> and \<^verbatim>\<open>fileBase\<close>; it has no
  default, so another language leaves the initial values \<^verbatim>\<open>""\<close> and \<^verbatim>\<open>"main"\<close>.
\<close>

definition source_file :: "string \<Rightarrow> string \<times> string" where
  "source_file lang =
     (let fileBase = ''main'' in
      if lang = ''python'' then (fileBase @ ''.py'', fileBase)
      else if lang = ''node'' then (fileBase @ ''.js'', fileBase)
      else if lang = ''c'' then (fileBase @ ''.c'', fileBase)
      else if lang = ''cpp'' then (fileBase @ ''.cpp'', fileBase)
      else if lang = ''java'' then (''Main.java'', ''Main'')
      else ('''', fileBase))"

text \<open>
  The test \<^verbatim>\<open>if (stdin)\<close>: \<^verbatim>\<open>null\<close>, \<^verbatim>\<open>false\<close>, \<^verbatim>\<open>0\<close> and the empty
  string are falsy, every other value is truthy (a missing field is falsy as well).
\<close>

fun truthy :: "jsval \<Rightarrow> bool" where
  "truthy JNull = False"
| "truthy (JBool b) = b"
| "truthy (JNumber x) = (x \<noteq> 0)"
| "truthy (JString s) = (s \<noteq> [])"
| "truthy (JArray vs) = True"
| "truthy (JObject kvs) = True"

text \<open>
  \<^verbatim>\<open>proc.stdin.write(v)\<close> on the input stream of the process, a byte stream: a
  string is written, any other value of a parsed body makes the call throw.
\<close>

fun write_chunk :: "world \<Rightarrow> jsval \<Rightarrow> exn + effect list" where
  "write_chunk w (JString s) = Inr [StdinWrite s]"
| "write_chunk w v = Inl (invalid_chunk w)"

text \<open>
  \<^verbatim>\<open>if (stdin) proc.stdin.write(stdin)\<close>: the calls made on the stream, or what was
  thrown.
\<close>

definition feed :: "world \<Rightarrow> jsval option \<Rightarrow> exn + effect list" where
  "feed w inp =
     (case inp of
        None \<Rightarrow> Inr []
      | Some v \<Rightarrow> if truthy v then write_chunk w v else Inr [])"

text \<open>
  The callbacks, run on the events in order until \<^verbatim>\<open>close\<close>:
  \<^verbatim>\<open>stdout += d\<close>, \<^verbatim>\<open>stderr += d\<close>, the timer's \<^verbatim>\<open>proc.kill("SIGKILL")\<close>
  (a timer fires once), and \<^verbatim>\<open>resolve(code ?? 137)\<close>. The arguments are whether the
  timer is still pending, both accumulators and the kills sent so far; the first
  component of the result is the value the promise resolves to, \<open>None\<close> when
  \<^verbatim>\<open>close\<close> never comes.
\<close>

fun supervise ::
  "event list \<Rightarrow> bool \<Rightarrow> string \<Rightarrow> string \<Rightarrow> effect list
     \<Rightarrow> int option \<times> string \<times> string \<times> effect list" where
  "supervise [] pending out err fx = (None, out, err, fx)"
| "supervise (StdoutData d # evs) pending out err fx = supervise evs pending (out @ d) err fx"
| "supervise (StderrData d # evs) pending out err fx = supervise evs pending out (err @ d) fx"
| "supervise (TimerFired # evs) pending out err fx =
     (if pending then supervise evs False out err (fx @ [Kill ''SIGKILL''])
      else supervise evs pending out err fx)"
| "supervise (Close c # evs) pending out err fx =
     (Some (case c of None \<Rightarrow> 137 | Some n \<Rightarrow> n), out, err, fx)"

text \<open>
  The body of \<^verbatim>\<open>POST\<close> after validation, for language \<open>lang\<close>, source \<open>src\<close> and
  optional input \<open>inp\<close>. Every throw ends in the catch clause with the effects so far.
\<close>

definition run ::
  "world \<Rightarrow> string \<Rightarrow> string \<Rightarrow> jsval option \<Rightarrow> response option \<times> effect list" where
  "run w lang src inp =
     (let fx1 = [Mkdtemp (path_join (tmpdir w) ''run-'')] in
      case mkdtemp w of
        Inl e \<Rightarrow> (Some (catch e), fx1)
      | Inr dir \<Rightarrow>
          let (filename, fileBase) = source_file lang;
              fx2 = fx1 @ [WriteFile (path_join dir filename) src] in
          (case writeFile w of
             Some e \<Rightarrow> (Some (catch e), fx2)
           | None \<Rightarrow>
               (case dockerArgs lang dir fileBase of
                  Inl e \<Rightarrow> (Some (catch e), fx2)
                | Inr args \<Rightarrow>
                    let fx3 = fx2 @ [Spawn ''docker'' args] in
                    (case spawn w of
                       Some e \<Rightarrow> (Some (catch e), fx3)
                     | None \<Rightarrow>
                         (case feed w inp of
                            Inl e \<Rightarrow> (Some (catch e), fx3)
                          | Inr written \<Rightarrow>
                              let fx4 = fx3 @ written
                                    @ [StdinEnd, SetTimeout (LIMIT_SECONDS * 1000)] in
                              (case supervise (events w) True [] [] fx4 of
                                 (None, out, err, fx5) \<Rightarrow> (None, fx5)
                               | (Some exit_code, out, err, fx5) \<Rightarrow>
                                   (Some (json (RunResult exit_code out err
                                              (exit_code = 137 \<and> out = [] \<and> err = [])) 200),
                                    fx5 @ [ClearTimeout, Rm dir])))))))"

text \<open>
  \<^verbatim>\<open>POST\<close>. The argument \<open>req\<close> is the outcome of \<^verbatim>\<open>await req.json()\<close> and the
  destructuring: the fields, or what was thrown. \<^verbatim>\<open>!language\<close> and \<^verbatim>\<open>!code\<close> hold
  for a missing field and for the empty string.
\<close>

definition POST :: "world \<Rightarrow> exn + RunBody \<Rightarrow> response option \<times> effect list" where
  "POST w req =
     (case req of
        Inl e \<Rightarrow> (Some (catch e), [])
      | Inr b \<Rightarrow>
          (case language b of
             None \<Rightarrow> (Some (json (ErrorMsg ''Unsupported or missing language'') 400), [])
           | Some lang \<Rightarrow>
               if lang = [] \<or> lang \<notin> set supported
               then (Some (json (ErrorMsg ''Unsupported or missing language'') 400), [])
               else
                 (case code b of
                    None \<Rightarrow> (Some (json (ErrorMsg ''Missing code or too large'') 413), [])
                  | Some src \<Rightarrow>
                      if src = [] \<or> length src > 300000
                      then (Some (json (ErrorMsg ''Missing code or too large'') 413), [])
                      else run w lang src (stdin b))))"

subsection \<open>Reading the events and the effects\<close>

text \<open>
  What a list of events says, up to its first \<open>Close\<close>: the code that \<open>Close\<close> carries
  (\<open>None\<close> when \<^verbatim>\<open>close\<close> never comes), the text delivered on each stream, and
  whether the timer expired.
\<close>

fun close_code :: "event list \<Rightarrow> int option option" where
  "close_code [] = None"
| "close_code (Close c # evs) = Some c"
| "close_code (ev # evs) = close_code evs"

fun stdout_text :: "event list \<Rightarrow> string" where
  "stdout_text [] = []"
| "stdout_text (Close c # evs) = []"
| "stdout_text (StdoutData d # evs) = d @ stdout_text evs"
| "stdout_text (ev # evs) = stdout_text evs"

fun stderr_text :: "event list \<Rightarrow> string" where
  "stderr_text [] = []"
| "stderr_text (Close c # evs) = []"
| "stderr_text (StderrData d # evs) = d @ stderr_text evs"
| "stderr_text (ev # evs) = stderr_text evs"

fun timer_fired :: "event list \<Rightarrow> bool" where
  "timer_fired [] = False"
| "timer_fired (Close c # evs) = False"
| "timer_fired (TimerFired # evs) = True"
| "timer_fired (ev # evs) = timer_fired evs"

text \<open>
  The process was killed by the deadline timer: the timer expired while the handler was
  still waiting, and \<^verbatim>\<open>close\<close> then came without an exit code.
\<close>

definition killed_by_deadline :: "event list \<Rightarrow> bool" where
  "killed_by_deadline evs = (timer_fired evs \<and> close_code evs = Some None)"

text \<open>The calls on the input stream of the process, in order.\<close>

fun stdin_calls :: "effect list \<Rightarrow> effect list" where
  "stdin_calls [] = []"
| "stdin_calls (StdinWrite s # fx) = StdinWrite s # stdin_calls fx"
| "stdin_calls (StdinEnd # fx) = StdinEnd # stdin_calls fx"
| "stdin_calls (e # fx) = stdin_calls fx"

text \<open>
  The error of \<^verbatim>\<open>proc.stdin.write\<close> for an argument that is not a string.
\<close>

definition ERR_INVALID_ARG_TYPE :: exn where
  "ERR_INVALID_ARG_TYPE =
     Exn (Some ''The chunk argument must be of type string or an instance of Buffer, TypedArray, or DataView'')"

text \<open>
  A world in which the directory \<^verbatim>\<open>/tmp/run-Ab3xYz\<close> is created, the source file is
  written and the process starts, and that delivers the events \<open>evs\<close>.
\<close>

definition healthy :: "event list \<Rightarrow> world" where
  "healthy evs =
     \<lparr>tmpdir = ''/tmp'', mkdtemp = Inr ''/tmp/run-Ab3xYz'', writeFile = None, spawn = None,
      invalid_chunk = ERR_INVALID_ARG_TYPE, events = evs\<rparr>"

subsection \<open>Reading an argument list\<close>

text \<open>\<open>has_option k v args\<close>: the option \<open>k\<close> occurs in \<open>args\<close> followed by its value \<open>v\<close>.\<close>

fun has_option :: "string \<Rightarrow> string \<Rightarrow> string list \<Rightarrow> bool" where
  "has_option k v (a # b # xs) = ((a = k \<and> b = v) \<or> has_option k v (b # xs))"
| "has_option k v xs = False"

section \<open>Reading the handler\<close>

text \<open>What the callbacks compute, read off the list of events.\<close>

lemma supervise_reads:
  "supervise evs pending out err fx =
     (map_option (\<lambda>c. case c of None \<Rightarrow> 137 | Some n \<Rightarrow> n) (close_code evs),
      out @ stdout_text evs, err @ stderr_text evs,
      fx @ (if pending \<and> timer_fired evs then [Kill ''SIGKILL''] else []))"
  by (induction evs pending out err fx rule: supervise.induct) auto

text \<open>The body of the handler, one case for each place where it can end.\<close>

lemma run_unfold:
  "run w lang src inp =
     (case mkdtemp w of
        Inl e \<Rightarrow> (Some (catch e), [Mkdtemp (path_join (tmpdir w) ''run-'')])
      | Inr dir \<Rightarrow>
          (case writeFile w of
             Some e \<Rightarrow> (Some (catch e),
                         [Mkdtemp (path_join (tmpdir w) ''run-''),
                          WriteFile (path_join dir (fst (source_file lang))) src])
           | None \<Rightarrow>
               (case dockerArgs lang dir (snd (source_file lang)) of
                  Inl e \<Rightarrow> (Some (catch e),
                              [Mkdtemp (path_join (tmpdir w) ''run-''),
                               WriteFile (path_join dir (fst (source_file lang))) src])
                | Inr args \<Rightarrow>
                    (case spawn w of
                       Some e \<Rightarrow> (Some (catch e),
                                   [Mkdtemp (path_join (tmpdir w) ''run-''),
                                    WriteFile (path_join dir (fst (source_file lang))) src,
                                    Spawn ''docker'' args])
                     | None \<Rightarrow>
                         (case feed w inp of
                            Inl e \<Rightarrow> (Some (catch e),
                                        [Mkdtemp (path_join (tmpdir w) ''run-''),
                                         WriteFile (path_join dir (fst (source_file lang))) src,
                                         Spawn ''docker'' args])
                          | Inr written \<Rightarrow>
                              (case close_code (events w) of
                                 None \<Rightarrow>
                                   (None,
                                    [Mkdtemp (path_join (tmpdir w) ''run-''),
                                     WriteFile (path_join dir (fst (source_file lang))) src,
                                     Spawn ''docker'' args]
                                    @ written
                                    @ [StdinEnd, SetTimeout 6000]
                                    @ (if timer_fired (events w) then [Kill ''SIGKILL'']
                                       else []))
                               | Some c \<Rightarrow>
                                   (Some (json (RunResult
                                            (case c of None \<Rightarrow> 137 | Some n \<Rightarrow> n)
                                            (stdout_text (events w)) (stderr_text (events w))
                                            ((c = None \<or> c = Some 137)
                                               \<and> stdout_text (events w) = []
                                               \<and> stderr_text (events w) = [])) 200),
                                    [Mkdtemp (path_join (tmpdir w) ''run-''),
                                     WriteFile (path_join dir (fst (source_file lang))) src,
                                     Spawn ''docker'' args]
                                    @ written
                                    @ [StdinEnd, SetTimeout 6000]
                                    @ (if timer_fired (events w) then [Kill ''SIGKILL'']
                                       else [])
                                    @ [ClearTimeout, Rm dir])))))))"
  by (simp add: run_def supervise_reads LIMIT_SECONDS_def Let_def
        split: sum.splits option.splits prod.splits)

text \<open>
  What \<^verbatim>\<open>if (stdin) proc.stdin.write(stdin)\<close> does: it writes a non-empty string,
  does nothing for a missing or falsy value, and throws for any other value.
\<close>

lemma feed_written:
  assumes "feed w inp = Inr written"
  shows "written = (case inp of
                      Some (JString s) \<Rightarrow> if s = [] then [] else [StdinWrite s]
                    | _ \<Rightarrow> [])"
proof (cases inp)
  case None
  with assms show ?thesis by (simp add: feed_def)
next
  case (Some v)
  with assms show ?thesis
    by (cases v) (auto simp: feed_def split: if_splits)
qed

lemma feed_text:
  assumes "\<forall>v. inp = Some v \<longrightarrow> truthy v \<longrightarrow> (\<exists>s. v = JString s)"
  shows "feed w inp = Inr (case inp of
                             Some (JString s) \<Rightarrow> if s = [] then [] else [StdinWrite s]
                           | _ \<Rightarrow> [])"
proof (cases inp)
  case None
  then show ?thesis by (simp add: feed_def)
next
  case (Some v)
  with assms show ?thesis
    by (cases v) (auto simp: feed_def)
qed

lemma feed_effects:
  assumes "feed w inp = Inr written" and "e \<in> set written"
  shows "\<exists>s. e = StdinWrite s"
  using assms(2) unfolding feed_written [OF assms(1)]
  by (auto split: option.splits jsval.splits if_splits)

lemma stdin_calls_append: "stdin_calls (xs @ ys) = stdin_calls xs @ stdin_calls ys"
  by (induction xs rule: stdin_calls.induct) simp_all

lemma status_catch: "status (catch e) = 500"
  by (simp add: catch_def json_def)

lemma status_json: "status (json d st) = st"
  by (simp add: json_def)

lemma body_json: "body (json d st) = d"
  by (simp add: json_def)

text \<open>A request that passes both checks reaches the body.\<close>

lemma POST_accepted:
  assumes "language b = Some lang" and "lang \<in> set supported"
    and "code b = Some src" and "src \<noteq> []" and "length src \<le> 300000"
  shows "POST w (Inr b) = run w lang src (stdin b)"
  using assms by (auto simp: POST_def supported_def)

text \<open>
  A response with status 200 comes from one path only: both checks passed, the
  directory was created, the file written, the process started, and \<^verbatim>\<open>close\<close> came.
\<close>

lemma POST_200_run:
  assumes "POST w req = (Some r, fx)" and "status r = 200"
  shows "\<exists>b lang src.
           req = Inr b \<and> language b = Some lang \<and> lang \<in> set supported
           \<and> code b = Some src \<and> src \<noteq> [] \<and> length src \<le> 300000
           \<and> run w lang src (stdin b) = (Some r, fx)"
proof (cases req)
  case (Inl e)
  with assms show ?thesis by (auto simp: POST_def status_catch)
next
  case (Inr b)
  show ?thesis
  proof (cases "language b")
    case None
    with assms Inr show ?thesis by (auto simp: POST_def status_json)
  next
    case (Some lang)
    note lang = this
    show ?thesis
    proof (cases "code b")
      case None
      with assms Inr lang show ?thesis
        by (auto simp: POST_def status_json split: if_splits)
    next
      case (Some src)
      with assms Inr lang show ?thesis
        by (auto simp: POST_def status_json split: if_splits)
    qed
  qed
qed

lemma run_200:
  assumes "run w lang src inp = (Some r, fx)" and "status r = 200"
  obtains dir args written c where
    "mkdtemp w = Inr dir" and "writeFile w = None" and "spawn w = None"
    and "dockerArgs lang dir (snd (source_file lang)) = Inr args"
    and "feed w inp = Inr written"
    and "close_code (events w) = Some c"
    and "r = json (RunResult (case c of None \<Rightarrow> 137 | Some n \<Rightarrow> n)
                 (stdout_text (events w)) (stderr_text (events w))
                 ((c = None \<or> c = Some 137) \<and> stdout_text (events w) = []
                    \<and> stderr_text (events w) = [])) 200"
    and "fx = [Mkdtemp (path_join (tmpdir w) ''run-''),
               WriteFile (path_join dir (fst (source_file lang))) src,
               Spawn ''docker'' args]
              @ written
              @ [StdinEnd, SetTimeout 6000]
              @ (if timer_fired (events w) then [Kill ''SIGKILL''] else [])
              @ [ClearTimeout, Rm dir]"
proof -
  from assms obtain dir where dir: "mkdtemp w = Inr dir"
    by (cases "mkdtemp w") (auto simp: run_unfold status_catch)
  from assms dir have wf: "writeFile w = None"
    by (cases "writeFile w") (auto simp: run_unfold status_catch)
  from assms dir wf obtain args
    where args: "dockerArgs lang dir (snd (source_file lang)) = Inr args"
    by (cases "dockerArgs lang dir (snd (source_file lang))")
       (auto simp: run_unfold status_catch)
  from assms dir wf args have sp: "spawn w = None"
    by (cases "spawn w") (auto simp: run_unfold status_catch)
  from assms dir wf args sp obtain written where fd: "feed w inp = Inr written"
    by (cases "feed w inp") (auto simp: run_unfold status_catch)
  from assms dir wf args sp fd obtain c where c: "close_code (events w) = Some c"
    by (cases "close_code (events w)") (auto simp: run_unfold)
  from assms(1) have r: "r = json (RunResult (case c of None \<Rightarrow> 137 | Some n \<Rightarrow> n)
                 (stdout_text (events w)) (stderr_text (events w))
                 ((c = None \<or> c = Some 137) \<and> stdout_text (events w) = []
                    \<and> stderr_text (events w) = [])) 200"
    unfolding run_unfold by (auto simp: dir wf args sp fd c)
  from assms(1) have fx: "fx = [Mkdtemp (path_join (tmpdir w) ''run-''),
               WriteFile (path_join dir (fst (source_file lang))) src,
               Spawn ''docker'' args]
              @ written
              @ [StdinEnd, SetTimeout 6000]
              @ (if timer_fired (events w) then [Kill ''SIGKILL''] else [])
              @ [ClearTimeout, Rm dir]"
    unfolding run_unfold by (auto simp: dir wf args sp fd c)
  show thesis
    by (rule that [OF dir wf sp args fd c r fx])
qed

lemma POST_200:
  assumes "POST w req = (Some r, fx)" and "status r = 200"
  obtains b lang src dir args written c where
    "req = Inr b" and "language b = Some lang" and "lang \<in> set supported"
    and "code b = Some src" and "src \<noteq> []" and "length src \<le> 300000"
    and "mkdtemp w = Inr dir" and "writeFile w = None" and "spawn w = None"
    and "dockerArgs lang dir (snd (source_file lang)) = Inr args"
    and "feed w (stdin b) = Inr written"
    and "close_code (events w) = Some c"
    and "r = json (RunResult (case c of None \<Rightarrow> 137 | Some n \<Rightarrow> n)
                 (stdout_text (events w)) (stderr_text (events w))
                 ((c = None \<or> c = Some 137) \<and> stdout_text (events w) = []
                    \<and> stderr_text (events w) = [])) 200"
    and "fx = [Mkdtemp (path_join (tmpdir w) ''run-''),
               WriteFile (path_join dir (fst (source_file lang))) src,
               Spawn ''docker'' args]
              @ written
              @ [StdinEnd, SetTimeout 6000]
              @ (if timer_fired (events w) then [Kill ''SIGKILL''] else [])
              @ [ClearTimeout, Rm dir]"
proof -
  from POST_200_run [OF assms] obtain b lang src where
    a: "req = Inr b" "language b = Some lang" "lang \<in> set supported"
       "code b = Some src" "src \<noteq> []" "length src \<le> 300000"
    and r: "run w lang src (stdin b) = (Some r, fx)"
    by blast
  from r assms(2) obtain dir args written c where
    "mkdtemp w = Inr dir" and "writeFile w = None" and "spawn w = None"
    and "dockerArgs lang dir (snd (source_file lang)) = Inr args"
    and "feed w (stdin b) = Inr written"
    and "close_code (events w) = Some c"
    and "r = json (RunResult (case c of None \<Rightarrow> 137 | Some n \<Rightarrow> n)
                 (stdout_text (events w)) (stderr_text (events w))
                 ((c = None \<or> c = Some 137) \<and> stdout_text (events w) = []
                    \<and> stderr_text (events w) = [])) 200"
    and "fx = [Mkdtemp (path_join (tmpdir w) ''run-''),
               WriteFile (path_join dir (fst (source_file lang))) src,
               Spawn ''docker'' args]
              @ written
              @ [StdinEnd, SetTimeout 6000]
              @ (if timer_fired (events w) then [Kill ''SIGKILL''] else [])
              @ [ClearTimeout, Rm dir]"
    by (rule run_200)
  with a show thesis
    by (rule that)
qed

text \<open>Where a \<open>Spawn\<close> or a \<open>WriteFile\<close> among the effects comes from.\<close>

lemma run_spawn:
  assumes "Spawn c a \<in> set (snd (run w lang src inp))"
  shows "\<exists>dir. mkdtemp w = Inr dir \<and> writeFile w = None \<and> c = ''docker''
           \<and> dockerArgs lang dir (snd (source_file lang)) = Inr a"
proof -
  from assms obtain dir where dir: "mkdtemp w = Inr dir"
    by (cases "mkdtemp w") (auto simp: run_unfold)
  from assms dir have wf: "writeFile w = None"
    by (cases "writeFile w") (auto simp: run_unfold)
  from assms dir wf obtain args
    where args: "dockerArgs lang dir (snd (source_file lang)) = Inr args"
    by (cases "dockerArgs lang dir (snd (source_file lang))") (auto simp: run_unfold)
  from assms have "c = ''docker'' \<and> a = args"
    unfolding run_unfold
    by (auto simp: dir wf args split: sum.splits option.splits if_splits
          dest: feed_effects)
  with dir wf args show ?thesis by simp
qed

lemma POST_spawn:
  assumes "Spawn c a \<in> set (snd (POST w (Inr b)))"
  shows "\<exists>lang src dir.
           language b = Some lang \<and> lang \<in> set supported \<and> code b = Some src
           \<and> src \<noteq> [] \<and> length src \<le> 300000
           \<and> mkdtemp w = Inr dir \<and> writeFile w = None \<and> c = ''docker''
           \<and> dockerArgs lang dir (snd (source_file lang)) = Inr a
           \<and> POST w (Inr b) = run w lang src (stdin b)"
proof -
  from assms obtain lang where lang: "language b = Some lang"
    by (cases "language b") (auto simp: POST_def)
  from assms lang have sup: "lang \<in> set supported"
    by (auto simp: POST_def split: if_splits)
  from assms lang sup obtain src where src: "code b = Some src"
    by (cases "code b") (auto simp: POST_def split: if_splits)
  from assms lang sup src have ok: "src \<noteq> []" "length src \<le> 300000"
    by (auto simp: POST_def split: if_splits)
  have eq: "POST w (Inr b) = run w lang src (stdin b)"
    by (rule POST_accepted [OF lang sup src ok])
  from assms run_spawn [of c a w lang src "stdin b"] lang sup src ok eq
  show ?thesis by auto
qed

lemma POST_writeFile:
  assumes "WriteFile p d \<in> set (snd (POST w (Inr b)))"
  shows "\<exists>lang dir. language b = Some lang \<and> lang \<in> set supported \<and> code b = Some d
           \<and> mkdtemp w = Inr dir \<and> p = path_join dir (fst (source_file lang))"
proof -
  from assms obtain lang where lang: "language b = Some lang"
    by (cases "language b") (auto simp: POST_def)
  from assms lang have sup: "lang \<in> set supported"
    by (auto simp: POST_def split: if_splits)
  from assms lang sup obtain src where src: "code b = Some src"
    by (cases "code b") (auto simp: POST_def split: if_splits)
  from assms lang sup src have ok: "src \<noteq> []" "length src \<le> 300000"
    by (auto simp: POST_def split: if_splits)
  have eq: "POST w (Inr b) = run w lang src (stdin b)"
    by (rule POST_accepted [OF lang sup src ok])
  from assms obtain dir where dir: "mkdtemp w = Inr dir"
    unfolding eq by (cases "mkdtemp w") (auto simp: run_unfold)
  from assms have "p = path_join dir (fst (source_file lang)) \<and> d = src"
    unfolding eq run_unfold
    by (auto simp: dir split: sum.splits option.splits if_splits dest: feed_effects)
  with lang sup src dir show ?thesis by simp
qed

text \<open>The body answers 200 or 500, and its first effect is the creation of the directory.\<close>

lemma run_status:
  assumes "fst (run w lang src inp) = Some r"
  shows "status r = 200 \<or> status r = 500"
  using assms unfolding run_unfold
  by (auto simp: status_catch status_json split: sum.splits option.splits)

lemma run_first_effect:
  "hd (snd (run w lang src inp)) = Mkdtemp (path_join (tmpdir w) ''run-'')"
  unfolding run_unfold
  by (simp split: sum.splits option.splits)

section \<open>Properties\<close>

subsection \<open>C1: removal of the workspace directory\<close>

text \<open>
  C1. The claim is that the workspace directory is removed on every way out of the
  handler. The only \<^verbatim>\<open>fs.rm\<close> stands on the path that ends with status 200; the
  catch clause does not remove anything. Here \<^verbatim>\<open>fs.writeFile\<close> fails (the disk is
  full) after \<^verbatim>\<open>fs.mkdtemp\<close> has created \<^verbatim>\<open>/tmp/run-Ab3xYz\<close>: the handler
  answers 500, and the effects end with the write; no \<open>Rm\<close> follows.
\<close>

theorem workspace_kept_when_write_fails:
  "POST \<lparr>tmpdir = ''/tmp'', mkdtemp = Inr ''/tmp/run-Ab3xYz'',
         writeFile = Some (Exn (Some ''ENOSPC: no space left on device, write'')),
         spawn = None, invalid_chunk = ERR_INVALID_ARG_TYPE, events = []\<rparr>
        (Inr \<lparr>language = Some ''python'', code = Some ''print(1)'', stdin = None\<rparr>)
   = (Some (json (ErrorMsg ''ENOSPC: no space left on device, write'') 500),
      [Mkdtemp ''/tmp/run-'', WriteFile ''/tmp/run-Ab3xYz/main.py'' ''print(1)''])"
  by (simp add: POST_def run_def feed_def supported_def source_file_def path_join_def catch_def)

subsection \<open>C2: the timedOut flag\<close>

text \<open>
  C2, as stated, fails: a program that exits by itself with code 137 and prints
  nothing is reported with \<open>timedOut = True\<close>, although the timer never expired and the
  process was not killed.
\<close>

theorem timedOut_without_deadline_kill:
  "fst (POST (healthy [Close (Some 137)])
          (Inr \<lparr>language = Some ''python'', code = Some ''import sys; sys.exit(137)'',
                stdin = None\<rparr>))
     = Some (json (RunResult 137 [] [] True) 200)
   \<and> \<not> killed_by_deadline (events (healthy [Close (Some 137)]))
   \<and> \<not> timer_fired (events (healthy [Close (Some 137)]))"
  by (simp add: POST_def run_def feed_def healthy_def supported_def source_file_def dockerArgs_def
        killed_by_deadline_def)

text \<open>
  C2, amended. For every run that ends with status 200, \<open>timedOut\<close> is true exactly
  when the reported exit code is 137 and both captured texts are empty; the reported
  exit code is 137 exactly when \<^verbatim>\<open>close\<close> came without a code or with the code 137.
  So a run killed by the deadline timer with no output has \<open>timedOut = True\<close>, and a run
  with output on either stream has \<open>timedOut = False\<close>, killed or not.
\<close>

theorem timedOut_rule:
  assumes "POST w req = (Some r, fx)" and "status r = 200"
  shows "timedOut (body r)
           = (exitCode (body r) = 137 \<and> stdout (body r) = [] \<and> stderr (body r) = [])
         \<and> (exitCode (body r) = 137)
             = (close_code (events w) = Some None \<or> close_code (events w) = Some (Some 137))
         \<and> (killed_by_deadline (events w) \<and> stdout (body r) = [] \<and> stderr (body r) = []
              \<longrightarrow> timedOut (body r))
         \<and> (stdout (body r) \<noteq> [] \<or> stderr (body r) \<noteq> [] \<longrightarrow> \<not> timedOut (body r))"
proof -
  from assms obtain c where
    c: "close_code (events w) = Some c"
    and r: "r = json (RunResult (case c of None \<Rightarrow> 137 | Some n \<Rightarrow> n)
                 (stdout_text (events w)) (stderr_text (events w))
                 ((c = None \<or> c = Some 137) \<and> stdout_text (events w) = []
                    \<and> stderr_text (events w) = [])) 200"
    by (rule POST_200)
  show ?thesis
    by (cases c) (auto simp: r c body_json killed_by_deadline_def)
qed

theorem timedOut_rule_witness:
  "POST (healthy [TimerFired, Close None])
        (Inr \<lparr>language = Some ''c'', code = Some ''int main(){for(;;);}'', stdin = None\<rparr>)
     = (Some (json (RunResult 137 [] [] True) 200),
        [Mkdtemp ''/tmp/run-'',
         WriteFile ''/tmp/run-Ab3xYz/main.c'' ''int main(){for(;;);}'',
         Spawn ''docker'' (projr (dockerArgs ''c'' ''/tmp/run-Ab3xYz'' ''main'')),
         StdinEnd, SetTimeout 6000, Kill ''SIGKILL'', ClearTimeout, Rm ''/tmp/run-Ab3xYz''])
   \<and> status (json (RunResult 137 [] [] True) 200) = 200
   \<and> killed_by_deadline (events (healthy [TimerFired, Close None]))
   \<and> timedOut (body (json (RunResult 137 [] [] True) 200))"
proof -
  have p: "POST (healthy [TimerFired, Close None])
        (Inr \<lparr>language = Some ''c'', code = Some ''int main(){for(;;);}'', stdin = None\<rparr>)
     = (Some (json (RunResult 137 [] [] True) 200),
        [Mkdtemp ''/tmp/run-'',
         WriteFile ''/tmp/run-Ab3xYz/main.c'' ''int main(){for(;;);}'',
         Spawn ''docker'' (projr (dockerArgs ''c'' ''/tmp/run-Ab3xYz'' ''main'')),
         StdinEnd, SetTimeout 6000, Kill ''SIGKILL'', ClearTimeout, Rm ''/tmp/run-Ab3xYz''])"
    by (simp add: POST_def run_def feed_def healthy_def supported_def source_file_def dockerArgs_def
        path_join_def LIMIT_SECONDS_def)
  have s: "status (json (RunResult 137 [] [] True) 200) = 200"
    by (simp add: json_def)
  have k: "killed_by_deadline (events (healthy [TimerFired, Close None]))"
    by (simp add: killed_by_deadline_def healthy_def)
  from timedOut_rule [OF p s] k p s show ?thesis
    by (simp add: json_def)
qed

subsection \<open>C3: the exit code 137\<close>




subsection \<open>C4: rejection before any resource is allocated\<close>

text \<open>
  C4, as stated, fails in its second half: a request with no code and an unknown
  language is answered with 400, not 413.
\<close>

theorem missing_code_unknown_language:
  "POST (healthy [])
        (Inr \<lparr>language = Some ''ruby'', code = None, stdin = None\<rparr>)
     = (Some (json (ErrorMsg ''Unsupported or missing language'') 400), [])
   \<and> status (json (ErrorMsg ''Unsupported or missing language'') 400) = 400"
  by (simp add: POST_def supported_def json_def)

text \<open>
  C4, amended. A request whose language is missing or is not one of the five is
  answered with 400. A request whose language is one of the five and whose code is
  missing, empty or longer than 300000 is answered with 413. In both cases the
  handler performs no effect: no directory is created and no process is started.
\<close>

theorem validation_rejects:
  "((language b = None \<or> (\<exists>l. language b = Some l \<and> l \<notin> set supported))
      \<longrightarrow> POST w (Inr b)
            = (Some (json (ErrorMsg ''Unsupported or missing language'') 400), []))
   \<and> ((\<exists>l. language b = Some l \<and> l \<in> set supported)
        \<and> (code b = None \<or> (\<exists>c. code b = Some c \<and> (c = [] \<or> 300000 < length c)))
      \<longrightarrow> POST w (Inr b) = (Some (json (ErrorMsg ''Missing code or too large'') 413), []))
   \<and> status (json (ErrorMsg ''Unsupported or missing language'') 400) = 400
   \<and> status (json (ErrorMsg ''Missing code or too large'') 413) = 413"
  by (auto simp: POST_def status_json supported_def)

theorem validation_rejects_witness:
  "POST (healthy []) (Inr \<lparr>language = None, code = Some ''print(1)'', stdin = None\<rparr>)
     = (Some (json (ErrorMsg ''Unsupported or missing language'') 400), [])
   \<and> ''java'' \<in> set supported
   \<and> POST (healthy [])
        (Inr \<lparr>language = Some ''java'', code = Some (replicate 300001 CHR ''x''),
              stdin = None\<rparr>)
     = (Some (json (ErrorMsg ''Missing code or too large'') 413), [])"
  using validation_rejects [of "\<lparr>language = None, code = Some ''print(1)'', stdin = None\<rparr>"
          "healthy []"]
    validation_rejects [of "\<lparr>language = Some ''java'',
          code = Some (replicate 300001 CHR ''x''), stdin = None\<rparr>" "healthy []"]
  by (simp add: supported_def)

subsection \<open>C5: the size of the captured output\<close>

text \<open>
  C5, as stated, fails: the handler appends every chunk, so one chunk of 300001
  characters on stdout gives a captured text of 300001 characters.
\<close>

theorem stdout_beyond_bound:
  "fst (POST (healthy [StdoutData (replicate 300001 CHR ''a''), Close (Some 0)])
          (Inr \<lparr>language = Some ''python'', code = Some ''print(1)'', stdin = None\<rparr>))
     = Some (json (RunResult 0 (replicate 300001 CHR ''a'') [] False) 200)
   \<and> 300000 < length (stdout (body (json (RunResult 0 (replicate 300001 CHR ''a'') [] False) 200)))"
  by (simp add: POST_def run_def feed_def healthy_def supported_def source_file_def dockerArgs_def
        json_def)

text \<open>
  C5, amended. For every run that ends with status 200, the reported stdout is the
  concatenation of all the chunks delivered on stdout before \<^verbatim>\<open>close\<close>, and the
  reported stderr likewise; nothing is cut.
\<close>

theorem output_is_every_chunk:
  assumes "POST w req = (Some r, fx)" and "status r = 200"
  shows "stdout (body r) = stdout_text (events w) \<and> stderr (body r) = stderr_text (events w)"
proof -
  from assms obtain b lang src dir args written c where
    "req = Inr b" and "language b = Some lang" and "lang \<in> set supported"
    and "code b = Some src" and "src \<noteq> []" and "length src \<le> 300000"
    and "mkdtemp w = Inr dir" and "writeFile w = None" and "spawn w = None"
    and "dockerArgs lang dir (snd (source_file lang)) = Inr args"
    and fd: "feed w (stdin b) = Inr written"
    and c: "close_code (events w) = Some c"
    and r: "r = json (RunResult (case c of None \<Rightarrow> 137 | Some n \<Rightarrow> n)
                 (stdout_text (events w)) (stderr_text (events w))
                 ((c = None \<or> c = Some 137) \<and> stdout_text (events w) = []
                    \<and> stderr_text (events w) = [])) 200"
    and fx: "fx = [Mkdtemp (path_join (tmpdir w) ''run-''),
               WriteFile (path_join dir (fst (source_file lang))) src,
               Spawn ''docker'' args]
              @ written
              @ [StdinEnd, SetTimeout 6000]
              @ (if timer_fired (events w) then [Kill ''SIGKILL''] else [])
              @ [ClearTimeout, Rm dir]"
    by (rule POST_200)
  show ?thesis
    by (simp add: r body_json)
qed

theorem output_is_every_chunk_witness:
  "POST (healthy [StdoutData ''ab'', StderrData ''x'', StdoutData ''cd'', Close (Some 1)])
        (Inr \<lparr>language = Some ''cpp'', code = Some ''int main(){}'', stdin = None\<rparr>)
     = (Some (json (RunResult 1 ''abcd'' ''x'' False) 200),
        [Mkdtemp ''/tmp/run-'',
         WriteFile ''/tmp/run-Ab3xYz/main.cpp'' ''int main(){}'',
         Spawn ''docker'' (projr (dockerArgs ''cpp'' ''/tmp/run-Ab3xYz'' ''main'')),
         StdinEnd, SetTimeout 6000, ClearTimeout, Rm ''/tmp/run-Ab3xYz''])
   \<and> status (json (RunResult 1 ''abcd'' ''x'' False) 200) = 200
   \<and> stdout_text (events (healthy
         [StdoutData ''ab'', StderrData ''x'', StdoutData ''cd'', Close (Some 1)])) = ''abcd''
   \<and> stderr_text (events (healthy
         [StdoutData ''ab'', StderrData ''x'', StdoutData ''cd'', Close (Some 1)])) = ''x''"
proof -
  have p: "POST (healthy [StdoutData ''ab'', StderrData ''x'', StdoutData ''cd'', Close (Some 1)])
        (Inr \<lparr>language = Some ''cpp'', code = Some ''int main(){}'', stdin = None\<rparr>)
     = (Some (json (RunResult 1 ''abcd'' ''x'' False) 200),
        [Mkdtemp ''/tmp/run-'',
         WriteFile ''/tmp/run-Ab3xYz/main.cpp'' ''int main(){}'',
         Spawn ''docker'' (projr (dockerArgs ''cpp'' ''/tmp/run-Ab3xYz'' ''main'')),
         StdinEnd, SetTimeout 6000, ClearTimeout, Rm ''/tmp/run-Ab3xYz''])"
    by (simp add: POST_def run_def feed_def healthy_def supported_def source_file_def dockerArgs_def
        path_join_def LIMIT_SECONDS_def)
  have s: "status (json (RunResult 1 ''abcd'' ''x'' False) 200) = 200"
    by (simp add: json_def)
  from output_is_every_chunk [OF p s] p s show ?thesis
    by (simp add: json_def)
qed

subsection \<open>C6: the isolation options\<close>

text \<open>
  C6. For each of the five supported languages \<^verbatim>\<open>dockerArgs\<close> returns an argument
  list, and the list holds every isolation option: no network, the fixed CPU and
  memory limits, the bound on processes, the read-only root file system, the tmpfs on
  /tmp with nosuid, nodev and noexec, all capabilities dropped, no new privileges, the
  user 1000:1000, and the workspace directory mounted read-only.
\<close>

theorem dockerArgs_isolation:
  assumes "lang \<in> set supported"
  shows "\<exists>args. dockerArgs lang dir fileBase = Inr args
           \<and> hd args = ''run''
           \<and> has_option ''--network'' ''none'' args
           \<and> has_option ''--cpus'' LIMIT_CPUS args
           \<and> has_option ''--memory'' LIMIT_MEMORY args
           \<and> has_option ''--pids-limit'' ''64'' args
           \<and> ''--read-only'' \<in> set args
           \<and> has_option ''--tmpfs'' ''/tmp:rw,nosuid,nodev,noexec,size=64m'' args
           \<and> has_option ''--cap-drop'' ''ALL'' args
           \<and> has_option ''--security-opt'' ''no-new-privileges'' args
           \<and> has_option ''--user'' ''1000:1000'' args
           \<and> has_option ''-v'' (dir @ '':/workspace:ro'') args"
proof -
  from assms consider "lang = ''python''" | "lang = ''node''" | "lang = ''c''"
    | "lang = ''cpp''" | "lang = ''java''"
    by (auto simp: supported_def)
  then show ?thesis
    by cases (simp_all add: dockerArgs_def common_def)
qed

theorem dockerArgs_isolation_witness:
  "''cpp'' \<in> set supported
   \<and> dockerArgs ''cpp'' ''/tmp/run-Ab3xYz'' ''main''
       = Inr [''run'', ''--rm'', ''--network'', ''none'', ''--cpus'', ''0.5'',
              ''--memory'', ''256m'', ''--pids-limit'', ''64'', ''--read-only'',
              ''--tmpfs'', ''/tmp:rw,nosuid,nodev,noexec,size=64m'',
              ''--cap-drop'', ''ALL'', ''--security-opt'', ''no-new-privileges'',
              ''-v'', ''/tmp/run-Ab3xYz:/workspace:ro'', ''-w'', ''/workspace'',
              ''--user'', ''1000:1000'', ''gcc:13'', ''/bin/sh'', ''-lc'',
              ''cp /workspace/main.cpp /tmp && g++ -O2 -pipe /tmp/main.cpp -o /tmp/main && /tmp/main'']
   \<and> has_option ''-v'' ''/tmp/run-Ab3xYz:/workspace:ro''
         (projr (dockerArgs ''cpp'' ''/tmp/run-Ab3xYz'' ''main''))"
proof -
  have h: "''cpp'' \<in> set supported"
    by (simp add: supported_def)
  from dockerArgs_isolation [OF h, of "''/tmp/run-Ab3xYz''" "''main''"]
  show ?thesis
    using h by (auto simp: dockerArgs_def common_def LIMIT_CPUS_def LIMIT_MEMORY_def)
qed

subsection \<open>C7: the arguments do not depend on the code or the input\<close>

text \<open>
  C7. Whenever the handler starts a process, the command is \<^verbatim>\<open>docker\<close> and the
  arguments are those \<^verbatim>\<open>dockerArgs\<close> builds from the language, the directory and the
  fixed file base of the language. So two requests with the same language and the same
  directory start the process with the same arguments, whatever their code and input.
  The code goes into the file written in the directory under the fixed name of the
  language.
\<close>

theorem spawn_args_ignore_code_and_stdin:
  "(Spawn c a \<in> set (snd (POST w (Inr b)))
      \<longrightarrow> (\<exists>lang dir. language b = Some lang \<and> mkdtemp w = Inr dir \<and> c = ''docker''
             \<and> dockerArgs lang dir (snd (source_file lang)) = Inr a))
   \<and> (language b = language b' \<and> mkdtemp w = mkdtemp w'
        \<and> Spawn c a \<in> set (snd (POST w (Inr b)))
        \<and> Spawn c' a' \<in> set (snd (POST w' (Inr b')))
      \<longrightarrow> c = c' \<and> a = a')
   \<and> (WriteFile p d \<in> set (snd (POST w (Inr b)))
      \<longrightarrow> code b = Some d
          \<and> (\<exists>lang dir. language b = Some lang \<and> mkdtemp w = Inr dir
                \<and> p = path_join dir (fst (source_file lang))))"
proof (intro conjI impI)
  assume "Spawn c a \<in> set (snd (POST w (Inr b)))"
  from POST_spawn [OF this]
  show "\<exists>lang dir. language b = Some lang \<and> mkdtemp w = Inr dir \<and> c = ''docker''
             \<and> dockerArgs lang dir (snd (source_file lang)) = Inr a"
    by blast
next
  assume h: "language b = language b' \<and> mkdtemp w = mkdtemp w'
        \<and> Spawn c a \<in> set (snd (POST w (Inr b)))
        \<and> Spawn c' a' \<in> set (snd (POST w' (Inr b')))"
  then have s1: "Spawn c a \<in> set (snd (POST w (Inr b)))"
    and s2: "Spawn c' a' \<in> set (snd (POST w' (Inr b')))"
    by simp_all
  from POST_spawn [OF s1] obtain lang dir where
    1: "language b = Some lang" "mkdtemp w = Inr dir" "c = ''docker''"
       "dockerArgs lang dir (snd (source_file lang)) = Inr a"
    by blast
  from POST_spawn [OF s2] obtain lang' dir' where
    2: "language b' = Some lang'" "mkdtemp w' = Inr dir'" "c' = ''docker''"
       "dockerArgs lang' dir' (snd (source_file lang')) = Inr a'"
    by blast
  from h 1 2 have "lang = lang'" "dir = dir'" by simp_all
  with 1 2 show "c = c'" and "a = a'" by simp_all
next
  assume "WriteFile p d \<in> set (snd (POST w (Inr b)))"
  from POST_writeFile [OF this]
  show "code b = Some d" and "\<exists>lang dir. language b = Some lang \<and> mkdtemp w = Inr dir
                \<and> p = path_join dir (fst (source_file lang))"
    by blast+
qed

theorem spawn_args_ignore_code_and_stdin_witness:
  "Spawn ''docker''
     [''run'', ''--rm'', ''--network'', ''none'', ''--cpus'', ''0.5'',
      ''--memory'', ''256m'', ''--pids-limit'', ''64'', ''--read-only'',
      ''--tmpfs'', ''/tmp:rw,nosuid,nodev,noexec,size=64m'',
      ''--cap-drop'', ''ALL'', ''--security-opt'', ''no-new-privileges'',
      ''-v'', ''/tmp/run-Ab3xYz:/workspace:ro'', ''-w'', ''/workspace'',
      ''--user'', ''1000:1000'', ''python:3.11-alpine'', ''python'', ''main.py'']
     \<in> set (snd (POST (healthy [Close (Some 0)])
                   (Inr \<lparr>language = Some ''python'', code = Some ''print(1)'',
                         stdin = None\<rparr>)))
   \<and> Spawn ''docker''
     [''run'', ''--rm'', ''--network'', ''none'', ''--cpus'', ''0.5'',
      ''--memory'', ''256m'', ''--pids-limit'', ''64'', ''--read-only'',
      ''--tmpfs'', ''/tmp:rw,nosuid,nodev,noexec,size=64m'',
      ''--cap-drop'', ''ALL'', ''--security-opt'', ''no-new-privileges'',
      ''-v'', ''/tmp/run-Ab3xYz:/workspace:ro'', ''-w'', ''/workspace'',
      ''--user'', ''1000:1000'', ''python:3.11-alpine'', ''python'', ''main.py'']
     \<in> set (snd (POST (healthy [StdoutData ''7'', Close (Some 0)])
                   (Inr \<lparr>language = Some ''python'', code = Some ''print(input())'',
                         stdin = Some (JString ''7'')\<rparr>)))
   \<and> WriteFile ''/tmp/run-Ab3xYz/main.py'' ''print(input())''
     \<in> set (snd (POST (healthy [StdoutData ''7'', Close (Some 0)])
                   (Inr \<lparr>language = Some ''python'', code = Some ''print(input())'',
                         stdin = Some (JString ''7'')\<rparr>)))"
  using spawn_args_ignore_code_and_stdin
    [of "''docker''"
        "[''run'', ''--rm'', ''--network'', ''none'', ''--cpus'', ''0.5'',
          ''--memory'', ''256m'', ''--pids-limit'', ''64'', ''--read-only'',
          ''--tmpfs'', ''/tmp:rw,nosuid,nodev,noexec,size=64m'',
          ''--cap-drop'', ''ALL'', ''--security-opt'', ''no-new-privileges'',
          ''-v'', ''/tmp/run-Ab3xYz:/workspace:ro'', ''-w'', ''/workspace'',
          ''--user'', ''1000:1000'', ''python:3.11-alpine'', ''python'', ''main.py'']"
        "healthy [Close (Some 0)]"
        "\<lparr>language = Some ''python'', code = Some ''print(1)'', stdin = None\<rparr>"
        "\<lparr>language = Some ''python'', code = Some ''print(input())'', stdin = Some (JString ''7'')\<rparr>"
        "healthy [StdoutData ''7'', Close (Some 0)]"
        "''docker''"
        "[''run'', ''--rm'', ''--network'', ''none'', ''--cpus'', ''0.5'',
          ''--memory'', ''256m'', ''--pids-limit'', ''64'', ''--read-only'',
          ''--tmpfs'', ''/tmp:rw,nosuid,nodev,noexec,size=64m'',
          ''--cap-drop'', ''ALL'', ''--security-opt'', ''no-new-privileges'',
          ''-v'', ''/tmp/run-Ab3xYz:/workspace:ro'', ''-w'', ''/workspace'',
          ''--user'', ''1000:1000'', ''python:3.11-alpine'', ''python'', ''main.py'']"
        "''/tmp/run-Ab3xYz/main.py''" "''print(1)''"]
  by (simp add: POST_def run_def feed_def healthy_def supported_def source_file_def dockerArgs_def
        common_def LIMIT_CPUS_def LIMIT_MEMORY_def path_join_def)

subsection \<open>C8: the input stream\<close>

text \<open>
  C8, as stated, fails: the handler never checks \<open>stdin\<close>, so a request with the
  number 5 as its \<open>stdin\<close> passes both checks and the process is started; then
  \<^verbatim>\<open>proc.stdin.write(5)\<close> throws, the catch clause answers 500, and
  \<^verbatim>\<open>proc.stdin.end()\<close> is never reached: the input stream is not closed.
\<close>

theorem stdin_left_open_for_number:
  "POST (healthy [Close (Some 0)])
        (Inr \<lparr>language = Some ''python'', code = Some ''print(input())'',
              stdin = Some (JNumber 5)\<rparr>)
     = (Some (catch ERR_INVALID_ARG_TYPE),
        [Mkdtemp ''/tmp/run-'',
         WriteFile ''/tmp/run-Ab3xYz/main.py'' ''print(input())'',
         Spawn ''docker'' (projr (dockerArgs ''python'' ''/tmp/run-Ab3xYz'' ''main''))])
   \<and> status (catch ERR_INVALID_ARG_TYPE) = 500
   \<and> stdin_calls (snd (POST (healthy [Close (Some 0)])
                 (Inr \<lparr>language = Some ''python'', code = Some ''print(input())'',
                       stdin = Some (JNumber 5)\<rparr>))) = []"
  by (simp add: POST_def run_def feed_def healthy_def supported_def source_file_def
        dockerArgs_def path_join_def catch_def json_def)

text \<open>
  C8, amended. For every accepted request whose process has been started and whose
  \<open>stdin\<close> is missing, a string or a falsy value, the handler's calls on the input
  stream are: one write of the text when \<open>stdin\<close> is a non-empty string, then the end
  of the stream; in every other such case the end of the stream alone. These calls
  directly follow the start of the process, whether or not \<^verbatim>\<open>close\<close> ever comes.
\<close>

theorem stdin_written_then_closed:
  assumes "Spawn c a \<in> set (snd (POST w (Inr b)))" and "spawn w = None"
    and "\<forall>v. stdin b = Some v \<longrightarrow> truthy v \<longrightarrow> (\<exists>s. v = JString s)"
  shows "stdin_calls (snd (POST w (Inr b)))
           = (case stdin b of
                Some (JString s) \<Rightarrow> if s = [] then [StdinEnd] else [StdinWrite s, StdinEnd]
              | _ \<Rightarrow> [StdinEnd])
         \<and> (\<exists>pre post. snd (POST w (Inr b))
               = pre @ [Spawn c a]
                 @ (case stdin b of
                      Some (JString s) \<Rightarrow> if s = [] then [] else [StdinWrite s]
                    | _ \<Rightarrow> [])
                 @ [StdinEnd] @ post)"
proof -
  from POST_spawn [OF assms(1)] obtain lang src dir where
    dir: "mkdtemp w = Inr dir" and wf: "writeFile w = None" and c: "c = ''docker''"
    and args: "dockerArgs lang dir (snd (source_file lang)) = Inr a"
    and eq: "POST w (Inr b) = run w lang src (stdin b)"
    by blast
  let ?w = "case stdin b of
              Some (JString s) \<Rightarrow> if s = [] then [] else [StdinWrite s]
            | _ \<Rightarrow> []"
  let ?pre = "[Mkdtemp (path_join (tmpdir w) ''run-''),
               WriteFile (path_join dir (fst (source_file lang))) src]"
  let ?k = "if timer_fired (events w) then [Kill ''SIGKILL''] else []"
  have fd: "feed w (stdin b) = Inr ?w"
    by (rule feed_text [OF assms(3)])
  have fx: "snd (POST w (Inr b))
              = ?pre @ [Spawn c a] @ ?w @ [StdinEnd]
                @ (SetTimeout 6000 # ?k
                    @ (case close_code (events w) of None \<Rightarrow> []
                       | Some cc \<Rightarrow> [ClearTimeout, Rm dir]))"
    unfolding eq run_unfold
    by (simp add: dir wf args assms(2) c fd split: option.splits)
  have calls: "stdin_calls (snd (POST w (Inr b)))
           = (case stdin b of
                Some (JString s) \<Rightarrow> if s = [] then [StdinEnd] else [StdinWrite s, StdinEnd]
              | _ \<Rightarrow> [StdinEnd])"
    unfolding fx
    by (simp add: stdin_calls_append split: option.splits jsval.splits)
  from fx have place: "\<exists>pre post. snd (POST w (Inr b))
               = pre @ [Spawn c a] @ ?w @ [StdinEnd] @ post"
    by blast
  from calls place show ?thesis by simp
qed

theorem stdin_written_then_closed_witness:
  "Spawn ''docker'' (projr (dockerArgs ''node'' ''/tmp/run-Ab3xYz'' ''main''))
     \<in> set (snd (POST (healthy [StdoutData ''hello'', Close (Some 0)])
                   (Inr \<lparr>language = Some ''node'', code = Some ''echo()'',
                         stdin = Some (JString ''hello'')\<rparr>)))
   \<and> spawn (healthy [StdoutData ''hello'', Close (Some 0)]) = None
   \<and> stdin_calls (snd (POST (healthy [StdoutData ''hello'', Close (Some 0)])
                   (Inr \<lparr>language = Some ''node'', code = Some ''echo()'',
                         stdin = Some (JString ''hello'')\<rparr>)))
       = [StdinWrite ''hello'', StdinEnd]"
proof -
  have s: "Spawn ''docker'' (projr (dockerArgs ''node'' ''/tmp/run-Ab3xYz'' ''main''))
     \<in> set (snd (POST (healthy [StdoutData ''hello'', Close (Some 0)])
                   (Inr \<lparr>language = Some ''node'', code = Some ''echo()'',
                         stdin = Some (JString ''hello'')\<rparr>)))"
    by (simp add: POST_def run_def feed_def healthy_def supported_def source_file_def
          dockerArgs_def)
  have n: "spawn (healthy [StdoutData ''hello'', Close (Some 0)]) = None"
    by (simp add: healthy_def)
  have t: "\<forall>v. stdin \<lparr>language = Some ''node'', code = Some ''echo()'',
                     stdin = Some (JString ''hello'')\<rparr> = Some v
               \<longrightarrow> truthy v \<longrightarrow> (\<exists>s. v = JString s)"
    by simp
  from stdin_written_then_closed [OF s n t] s n show ?thesis
    by simp
qed

subsection \<open>C9: the language is checked first\<close>

text \<open>
  C9. A request whose language is missing or unknown and whose code is missing, empty
  or too long is answered with 400 and the message of the language check.
\<close>

theorem language_checked_first:
  assumes "language b = None \<or> (\<exists>l. language b = Some l \<and> l \<notin> set supported)"
    and "code b = None \<or> (\<exists>c. code b = Some c \<and> (c = [] \<or> 300000 < length c))"
  shows "\<exists>r. POST w (Inr b) = (Some r, []) \<and> status r = 400
              \<and> body r = ErrorMsg ''Unsupported or missing language''"
  using assms(1) by (auto simp: POST_def json_def)

theorem language_checked_first_witness:
  "''rust'' \<notin> set supported
   \<and> 300000 < length (replicate 300001 CHR ''x'')
   \<and> (\<exists>r. POST (healthy [])
             (Inr \<lparr>language = Some ''rust'', code = Some (replicate 300001 CHR ''x''),
                   stdin = None\<rparr>) = (Some r, [])
          \<and> status r = 400 \<and> body r = ErrorMsg ''Unsupported or missing language'')"
proof -
  have l: "''rust'' \<notin> set supported"
    by (simp add: supported_def)
  from language_checked_first [of "\<lparr>language = Some ''rust'',
          code = Some (replicate 300001 CHR ''x''), stdin = None\<rparr>" "healthy []"] l
  show ?thesis by simp
qed

subsection \<open>C10: the size bound\<close>

text \<open>
  C10. For a request with a supported language: a non-empty code of at most 300000
  characters passes (the handler goes on to create the directory, and never answers
  413); a code of more than 300000 characters is answered with 413; the empty code is
  answered with 413, as a missing code is.
\<close>

theorem size_bound_inclusive:
  assumes "language b = Some lang" and "lang \<in> set supported" and "code b = Some src"
  shows "(src \<noteq> [] \<and> length src \<le> 300000
            \<longrightarrow> POST w (Inr b) = run w lang src (stdin b)
                \<and> hd (snd (POST w (Inr b))) = Mkdtemp (path_join (tmpdir w) ''run-'')
                \<and> (\<forall>r. fst (POST w (Inr b)) = Some r \<longrightarrow> status r \<noteq> 413))
         \<and> (300000 < length src
            \<longrightarrow> POST w (Inr b) = (Some (json (ErrorMsg ''Missing code or too large'') 413), []))
         \<and> (src = []
            \<longrightarrow> POST w (Inr b) = (Some (json (ErrorMsg ''Missing code or too large'') 413), []))
         \<and> POST w (Inr (b\<lparr>code := None\<rparr>))
             = (Some (json (ErrorMsg ''Missing code or too large'') 413), [])
         \<and> status (json (ErrorMsg ''Missing code or too large'') 413) = 413"
proof -
  have nil: "lang \<noteq> []"
    using assms(2) by (auto simp: supported_def)
  have pass: "POST w (Inr b) = run w lang src (stdin b)
                \<and> hd (snd (POST w (Inr b))) = Mkdtemp (path_join (tmpdir w) ''run-'')
                \<and> (\<forall>r. fst (POST w (Inr b)) = Some r \<longrightarrow> status r \<noteq> 413)"
    if ok: "src \<noteq> [] \<and> length src \<le> 300000"
  proof -
    from ok have eq: "POST w (Inr b) = run w lang src (stdin b)"
      using POST_accepted [OF assms(1,2,3)] by simp
    have "status r \<noteq> 413" if "fst (POST w (Inr b)) = Some r" for r
      using run_status [of w lang src "stdin b" r] that by (auto simp: eq)
    then show ?thesis
      by (simp add: eq run_first_effect)
  qed
  have big: "POST w (Inr b) = (Some (json (ErrorMsg ''Missing code or too large'') 413), [])"
    if "300000 < length src \<or> src = []"
    using that assms nil by (auto simp: POST_def)
  have none: "POST w (Inr (b\<lparr>code := None\<rparr>))
             = (Some (json (ErrorMsg ''Missing code or too large'') 413), [])"
    using assms nil by (simp add: POST_def)
  have st: "status (json (ErrorMsg ''Missing code or too large'') 413) = 413"
    by (simp add: status_json)
  have a: "src \<noteq> [] \<and> length src \<le> 300000
            \<longrightarrow> POST w (Inr b) = run w lang src (stdin b)
                \<and> hd (snd (POST w (Inr b))) = Mkdtemp (path_join (tmpdir w) ''run-'')
                \<and> (\<forall>r. fst (POST w (Inr b)) = Some r \<longrightarrow> status r \<noteq> 413)"
    by (rule impI) (rule pass)
  from big have b1: "300000 < length src
            \<longrightarrow> POST w (Inr b) = (Some (json (ErrorMsg ''Missing code or too large'') 413), [])"
    by simp
  from big have b2: "src = []
            \<longrightarrow> POST w (Inr b) = (Some (json (ErrorMsg ''Missing code or too large'') 413), [])"
    by simp
  show ?thesis
    by (rule conjI [OF a conjI [OF b1 conjI [OF b2 conjI [OF none st]]]])
qed

theorem size_bound_inclusive_witness:
  "''python'' \<in> set supported
   \<and> length (replicate 300000 CHR ''x'') = 300000
   \<and> hd (snd (POST (healthy [Close (Some 0)])
                (Inr \<lparr>language = Some ''python'', code = Some (replicate 300000 CHR ''x''),
                      stdin = None\<rparr>))) = Mkdtemp ''/tmp/run-''
   \<and> length (replicate 300001 CHR ''x'') = 300001
   \<and> POST (healthy [Close (Some 0)])
        (Inr \<lparr>language = Some ''python'', code = Some (replicate 300001 CHR ''x''),
              stdin = None\<rparr>)
       = (Some (json (ErrorMsg ''Missing code or too large'') 413), [])
   \<and> POST (healthy [Close (Some 0)])
        (Inr \<lparr>language = Some ''python'', code = Some [], stdin = None\<rparr>)
       = (Some (json (ErrorMsg ''Missing code or too large'') 413), [])"
proof -
  have l: "''python'' \<in> set supported"
    by (simp add: supported_def)
  from size_bound_inclusive [of "\<lparr>language = Some ''python'',
          code = Some (replicate 300000 CHR ''x''), stdin = None\<rparr>" "''python''"
          "replicate 300000 CHR ''x''" "healthy [Close (Some 0)]"] l
  have h1: "hd (snd (POST (healthy [Close (Some 0)])
                (Inr \<lparr>language = Some ''python'', code = Some (replicate 300000 CHR ''x''),
                      stdin = None\<rparr>))) = Mkdtemp (path_join (tmpdir (healthy [Close (Some 0)])) ''run-'')"
    by auto
  from size_bound_inclusive [of "\<lparr>language = Some ''python'',
          code = Some (replicate 300001 CHR ''x''), stdin = None\<rparr>" "''python''"
          "replicate 300001 CHR ''x''" "healthy [Close (Some 0)]"] l
  have h2: "POST (healthy [Close (Some 0)])
        (Inr \<lparr>language = Some ''python'', code = Some (replicate 300001 CHR ''x''),
              stdin = None\<rparr>)
       = (Some (json (ErrorMsg ''Missing code or too large'') 413), [])"
    by simp
  from size_bound_inclusive [of "\<lparr>language = Some ''python'',
          code = Some [], stdin = None\<rparr>" "''python''" "[]" "healthy [Close (Some 0)]"] l
  have h3: "POST (healthy [Close (Some 0)])
        (Inr \<lparr>language = Some ''python'', code = Some [], stdin = None\<rparr>)
       = (Some (json (ErrorMsg ''Missing code or too large'') 413), [])"
    by simp
  from h1 have h4: "hd (snd (POST (healthy [Close (Some 0)])
                (Inr \<lparr>language = Some ''python'', code = Some (replicate 300000 CHR ''x''),
                      stdin = None\<rparr>))) = Mkdtemp ''/tmp/run-''"
    by (simp add: path_join_def healthy_def)
  from l h4 h2 h3 show ?thesis
    by simp
qed

end
